theory Spec2Isabelle
  imports Main "HOL-Library.Word"
begin

section \<open>Values of the toolkit\<close>

text \<open>
  A \<open>QDateTime\<close> is held as its number of milliseconds since the epoch (a \<open>qint64\<close>).
  \<open>toSecsSinceEpoch\<close> is \<open>toMSecsSinceEpoch() / 1000\<close> in C++ integer division, which
  truncates towards zero.
\<close>

type_synonym QDateTime = int

definition toMSecsSinceEpoch :: "QDateTime \<Rightarrow> int" where
  "toMSecsSinceEpoch t = t"

definition toSecsSinceEpoch :: "QDateTime \<Rightarrow> int" where
  "toSecsSinceEpoch t = sgn t * (\<bar>t\<bar> div 1000)"

text \<open>
  \<open>QVariant::toInt()\<close> of an integer column. The SQLite driver hands an INTEGER column
  back as a 64-bit value; \<open>toInt\<close> converts it to the 32-bit \<open>int\<close> by keeping the low
  32 bits, read as two's complement.
\<close>

definition toInt :: "int \<Rightarrow> int" where
  "toInt x = sint (word_of_int x :: 32 word)"

text \<open>\<open>i18n\<close> with no translation catalogue loaded returns its argument.\<close>

definition i18n :: "string \<Rightarrow> string" where
  "i18n s = s"

section \<open>The objects handed in by the callers\<close>

text \<open>
  Modelled from the spec: the storage types \<open>KisResourceStorage::StorageType\<close>
  (the header declaring the enumeration is not among the sources). The names are those of
  \<open>KisResourceCacheDb::storageTypes\<close>; the numeric value of each is taken as the id that
  the row of its name gets when \<open>origin_types\<close> is filled from that list.
\<close>

datatype StorageType = Unknown | Folder | Bundle | AdobeBrushLibrary | AdobeStyleLibrary

fun StorageType_int :: "StorageType \<Rightarrow> int" where
  "StorageType_int Unknown = 1"
| "StorageType_int Folder = 2"
| "StorageType_int Bundle = 3"
| "StorageType_int AdobeBrushLibrary = 4"
| "StorageType_int AdobeStyleLibrary = 5"

definition storageTypes :: "string list" where
  "storageTypes = [''UNKNOWN'', ''FOLDER'', ''BUNDLE'', ''ADOBE_BRUSH_LIBRARY'', ''ADOBE_STYLE_LIBRARY'']"

definition databaseVersion :: string where
  "databaseVersion = ''0.0.1''"

text \<open>A \<open>KoResource\<close>: what the cache reads of it. A \<open>KoResourceSP\<close> may be null (\<open>None\<close>).\<close>

record KoResource =
  res_valid :: bool
  res_filename :: string
  res_name :: string
  res_md5 :: string
  res_image_png :: string

text \<open>A \<open>KisTag\<close> and the positions of the two iterators of a storage.\<close>

record KisTag =
  tag_url :: string
  tag_defaultResources :: "string list"

record ResourceItem =
  it_resource :: "KoResource option"
  it_lastModified :: QDateTime
  it_type :: string

record TagItem =
  ti_url :: string
  ti_name :: string
  ti_comment :: string
  ti_tag :: KisTag

record KisResourceStorage =
  sto_location :: string
  sto_type :: StorageType
  sto_timestamp :: QDateTime
  sto_resources :: "string \<Rightarrow> ResourceItem list"
  sto_tags :: "string \<Rightarrow> TagItem list"

section \<open>The database\<close>

text \<open>
  Modelled from the spec: the columns of the tables (the \<open>create_*.sql\<close> files are not
  among the sources). A column that a statement of the source fills from a scalar
  sub-select can hold NULL (\<open>None\<close>): the sub-select of an absent row is NULL.
\<close>

record version_row =
  vi_database_version :: string
  vi_krita_version :: string
  vi_creation_date :: string

record lookup_row =
  lk_id :: int
  lk_name :: string

record storage_row =
  st_id :: int
  st_origin_type_id :: int
  st_location :: string
  st_timestamp :: int
  st_pre_installed :: int
  st_active :: int

record resource_row =
  rs_id :: int
  rs_resource_type_id :: "int option"
  rs_name :: string
  rs_filename :: string
  rs_tooltip :: string
  rs_thumbnail :: string
  rs_status :: int

record versioned_row =
  vr_resource_id :: int
  vr_storage_id :: "int option"
  vr_version :: "int option"
  vr_location :: string
  vr_timestamp :: int
  vr_deleted :: int
  vr_checksum :: string

record tag_row =
  tg_id :: int
  tg_url :: string
  tg_name :: string
  tg_comment :: string
  tg_resource_type_id :: "int option"
  tg_active :: int

record resource_tag_row =
  rt_resource_id :: int
  rt_tag_id :: int

text \<open>
  The state the functions work on: the static \<open>s_valid\<close>, the connections registered
  with \<open>QSqlDatabase\<close>, whether the default connection is open, and the database file
  (the tables that exist, and their rows in insertion order).
\<close>

record db =
  s_valid :: bool
  connectionNames :: "string list"
  isOpen :: bool
  dbTables :: "string list"
  version_information :: "version_row list"
  origin_types :: "lookup_row list"
  resource_types :: "lookup_row list"
  storages :: "storage_row list"
  tags :: "tag_row list"
  resources :: "resource_row list"
  versioned_resources :: "versioned_row list"
  resource_tags :: "resource_tag_row list"

text \<open>
  The table definitions are not among the sources, so the constraints they declare are a
  parameter: for each table that the code inserts into, whether the engine accepts a row
  in a given database.
\<close>

record schema =
  accepts_storage :: "db \<Rightarrow> storage_row \<Rightarrow> bool"
  accepts_resource :: "db \<Rightarrow> resource_row \<Rightarrow> bool"
  accepts_version :: "db \<Rightarrow> versioned_row \<Rightarrow> bool"
  accepts_tag :: "db \<Rightarrow> tag_row \<Rightarrow> bool"
  accepts_resource_tag :: "db \<Rightarrow> resource_tag_row \<Rightarrow> bool"

definition unconstrained :: schema where
  "unconstrained = \<lparr> accepts_storage = (\<lambda>_ _. True), accepts_resource = (\<lambda>_ _. True),
     accepts_version = (\<lambda>_ _. True), accepts_tag = (\<lambda>_ _. True),
     accepts_resource_tag = (\<lambda>_ _. True) \<rparr>"

text \<open>
  \<open>QSqlQuery::prepare\<close> on the default connection compiles the statement at once with
  the SQLite driver: it fails when the connection is not open or a table that the
  statement names does not exist.
\<close>

definition prepare_ok :: "db \<Rightarrow> string list \<Rightarrow> bool" where
  "prepare_ok d ts \<longleftrightarrow> isOpen d \<and> list_all (\<lambda>t. t \<in> set (dbTables d)) ts"

text \<open>An \<open>INTEGER PRIMARY KEY\<close> left out of an INSERT: one more than the largest in use.\<close>

definition fresh_id :: "int list \<Rightarrow> int" where
  "fresh_id ids = (case ids of [] \<Rightarrow> 1 | i # is \<Rightarrow> fold max is i + 1)"

text \<open>The scalar sub-selects: the first matching row, NULL when there is none.\<close>

definition storage_id_for :: "db \<Rightarrow> string \<Rightarrow> int option" where
  "storage_id_for d loc = map_option st_id (find (\<lambda>r. st_location r = loc) (storages d))"

definition resource_type_id_for :: "db \<Rightarrow> string \<Rightarrow> int option" where
  "resource_type_id_for d name = map_option lk_id (find (\<lambda>r. lk_name r = name) (resource_types d))"

section \<open>Resource index\<close>

text \<open>
  Modelled from the spec: the statement of \<open>select_resource_id.sql\<close> (not among the
  sources), an exact lookup by file name and resource type name.
\<close>

definition select_resource_id :: "db \<Rightarrow> string \<Rightarrow> string \<Rightarrow> int list" where
  "select_resource_id d filename rtype =
     map rs_id (filter (\<lambda>r. rs_filename r = filename \<and>
        list_ex (\<lambda>t. lk_name t = rtype \<and> rs_resource_type_id r = Some (lk_id t)) (resource_types d))
       (resources d))"

definition resourceIdForResource :: "db \<Rightarrow> string \<Rightarrow> string \<Rightarrow> int" where
  "resourceIdForResource d resourceFileName resourceType =
     (if \<not> prepare_ok d [''resources'', ''resource_types''] then - 1
      else case select_resource_id d resourceFileName resourceType of
             [] \<Rightarrow> - 1
           | i # _ \<Rightarrow> toInt i)"

text \<open>
  The rows of one resource, \<open>MAX(version)\<close> over them (NULL versions are skipped, and the
  maximum of nothing is NULL), and the rows that the statement of
  \<open>resourceNeedsUpdating\<close> selects: those of the resource whose version equals the maximum.
\<close>

definition rows_of :: "db \<Rightarrow> int \<Rightarrow> versioned_row list" where
  "rows_of d resourceId = filter (\<lambda>r. vr_resource_id r = resourceId) (versioned_resources d)"

definition max_version :: "db \<Rightarrow> int \<Rightarrow> int option" where
  "max_version d resourceId =
     (case List.map_filter vr_version (rows_of d resourceId) of
        [] \<Rightarrow> None
      | v # vs \<Rightarrow> Some (fold max vs v))"

definition max_version_rows :: "db \<Rightarrow> int \<Rightarrow> versioned_row list" where
  "max_version_rows d resourceId =
     (case max_version d resourceId of
        None \<Rightarrow> []
      | Some m \<Rightarrow> filter (\<lambda>r. vr_version r = Some m) (rows_of d resourceId))"

text \<open>
  The branch in which \<open>resourceNeedsUpdating\<close> returns. Every branch but the last logs a
  message and returns false. The value of a column of a row that the query is positioned
  on is always a valid \<open>QVariant\<close>, so the branch for an invalid one is not taken.
\<close>

datatype needs_updating = PrepareFailed | NoVersionFound | Compared bool

definition resourceNeedsUpdating_branch :: "db \<Rightarrow> int \<Rightarrow> QDateTime \<Rightarrow> needs_updating" where
  "resourceNeedsUpdating_branch d resourceId timestamp =
     (if \<not> prepare_ok d [''versioned_resources''] then PrepareFailed
      else case max_version_rows d resourceId of
             [] \<Rightarrow> NoVersionFound
           | r # _ \<Rightarrow> Compared (toSecsSinceEpoch timestamp > toInt (vr_timestamp r)))"

definition resourceNeedsUpdating :: "db \<Rightarrow> int \<Rightarrow> QDateTime \<Rightarrow> bool" where
  "resourceNeedsUpdating d resourceId timestamp =
     (resourceNeedsUpdating_branch d resourceId timestamp = Compared True)"

text \<open>
  \<open>addResourceVersion\<close>. The INSERT takes \<open>MAX(version) + 1\<close> of the resource as the
  version. The text of the UPDATE that follows,
  \<^verbatim>\<open>UPDATE resources SET name = :name , filename = :filename , tooltip = :tooltip , thumbnail = :thumbnail) WHERE resourceId = :resourceId\<close>,
  has a closing parenthesis that nothing opens: its \<open>prepare\<close> fails, and the function
  returns false with the new version row in place.
\<close>

definition next_version :: "db \<Rightarrow> int \<Rightarrow> int option" where
  "next_version d resourceId = map_option (\<lambda>m. m + 1) (max_version d resourceId)"

definition addResourceVersion ::
  "schema \<Rightarrow> db \<Rightarrow> int \<Rightarrow> QDateTime \<Rightarrow> KisResourceStorage \<Rightarrow> KoResource \<Rightarrow> bool \<times> db" where
  "addResourceVersion sch d resourceId timestamp storage resource =
     (if \<not> prepare_ok d [''versioned_resources'', ''storages''] then (False, d)
      else
        let row = \<lparr> vr_resource_id = resourceId,
                    vr_storage_id = storage_id_for d (sto_location storage),
                    vr_version = next_version d resourceId,
                    vr_location = res_filename resource,
                    vr_timestamp = toSecsSinceEpoch timestamp,
                    vr_deleted = 0,
                    vr_checksum = res_md5 resource \<rparr>
        in if \<not> accepts_version sch d row then (False, d)
           else (False, d\<lparr>versioned_resources := versioned_resources d @ [row]\<rparr>))"

text \<open>
  The last statement of \<open>addResource\<close> (``Then add a new version''): a row with
  version 1 for \<open>resourceId\<close>. Every path of \<open>addResource\<close> that has not returned
  reaches it.
\<close>

definition add_first_version ::
  "schema \<Rightarrow> db \<Rightarrow> int \<Rightarrow> KisResourceStorage \<Rightarrow> QDateTime \<Rightarrow> KoResource \<Rightarrow> bool \<times> db" where
  "add_first_version sch d resourceId storage timestamp resource =
     (if \<not> prepare_ok d [''versioned_resources'', ''storages''] then (False, d)
      else
        let row = \<lparr> vr_resource_id = resourceId,
                    vr_storage_id = storage_id_for d (sto_location storage),
                    vr_version = Some 1,
                    vr_location = res_filename resource,
                    vr_timestamp = toSecsSinceEpoch timestamp,
                    vr_deleted = 0,
                    vr_checksum = res_md5 resource \<rparr>
        in if \<not> accepts_version sch d row then (False, d)
           else (True, d\<lparr>versioned_resources := versioned_resources d @ [row]\<rparr>))"

definition addResource ::
  "schema \<Rightarrow> db \<Rightarrow> KisResourceStorage \<Rightarrow> QDateTime \<Rightarrow> KoResource option \<Rightarrow> string \<Rightarrow> bool \<times> db" where
  "addResource sch d storage timestamp resource resourceType =
     (if \<not> s_valid d then (False, d)
      else case resource of
        None \<Rightarrow> (False, d)
      | Some res \<Rightarrow>
          if \<not> res_valid res then (False, d)
          else
            let resourceId = resourceIdForResource d (res_filename res) resourceType
            in if resourceId > - 1 then
                 (if resourceNeedsUpdating d resourceId timestamp
                  then add_first_version sch
                         (snd (addResourceVersion sch d resourceId timestamp storage res))
                         resourceId storage timestamp res
                  else add_first_version sch d resourceId storage timestamp res)
               else
                 (if \<not> prepare_ok d [''resources'', ''resource_types''] then (False, d)
                  else
                    let row = \<lparr> rs_id = fresh_id (map rs_id (resources d)),
                                rs_resource_type_id = resource_type_id_for d resourceType,
                                rs_name = res_name res,
                                rs_filename = res_filename res,
                                rs_tooltip = i18n (res_name res),
                                rs_thumbnail = res_image_png res,
                                rs_status = 1 \<rparr>
                    in if \<not> accepts_resource sch d row then (False, d)
                       else add_first_version sch (d\<lparr>resources := resources d @ [row]\<rparr>)
                              resourceId storage timestamp res))"

definition addResources :: "schema \<Rightarrow> db \<Rightarrow> KisResourceStorage \<Rightarrow> string \<Rightarrow> bool \<times> db" where
  "addResources sch d storage resourceType =
     (True, fold (\<lambda>it d'. case it_resource it of
                              None \<Rightarrow> d'
                            | Some res \<Rightarrow> snd (addResource sch d' storage (it_lastModified it)
                                                 (Some res) (it_type it)))
                 (sto_resources storage resourceType) d)"

section \<open>Tag catalog\<close>

text \<open>
  Modelled from the spec: the statement of \<open>select_tag.sql\<close> (not among the sources), a
  lookup of the tags by url and resource type name.
\<close>

definition select_tag :: "db \<Rightarrow> string \<Rightarrow> string \<Rightarrow> int list" where
  "select_tag d url rtype =
     map tg_id (filter (\<lambda>t. tg_url t = url \<and>
        list_ex (\<lambda>rt. lk_name rt = rtype \<and> tg_resource_type_id t = Some (lk_id rt)) (resource_types d))
       (tags d))"

definition hasTag :: "db \<Rightarrow> string \<Rightarrow> string \<Rightarrow> bool" where
  "hasTag d url resourceType =
     (if \<not> prepare_ok d [''tags'', ''resource_types''] then False
      else select_tag d url resourceType \<noteq> [])"

text \<open>\<open>addTag\<close> returns true also when the INSERT is not executed.\<close>

definition new_tag :: "db \<Rightarrow> string \<Rightarrow> string \<Rightarrow> string \<Rightarrow> string \<Rightarrow> tag_row" where
  "new_tag d resourceType url name comment =
     \<lparr> tg_id = fresh_id (map tg_id (tags d)),
       tg_url = url,
       tg_name = name,
       tg_comment = comment,
       tg_resource_type_id = resource_type_id_for d resourceType,
       tg_active = 1 \<rparr>"

definition addTag :: "schema \<Rightarrow> db \<Rightarrow> string \<Rightarrow> string \<Rightarrow> string \<Rightarrow> string \<Rightarrow> bool \<times> db" where
  "addTag sch d resourceType url name comment =
     (if hasTag d url resourceType then (True, d)
      else if \<not> prepare_ok d [''tags'', ''resource_types''] then (False, d)
      else
        let row = new_tag d resourceType url name comment
        in if \<not> accepts_tag sch d row then (True, d)
           else (True, d\<lparr>tags := tags d @ [row]\<rparr>))"

definition tagResource ::
  "schema \<Rightarrow> db \<Rightarrow> KisResourceStorage \<Rightarrow> string \<Rightarrow> KisTag \<Rightarrow> string \<Rightarrow> bool \<times> db" where
  "tagResource sch d storage resourceName tag resourceType =
     (let resourceId = resourceIdForResource d
            (sto_location storage @ ''/'' @ resourceType @ ''/'' @ resourceName) resourceType
      in if resourceId < 0 then (False, d)
         else if \<not> prepare_ok d [''tags'', ''resource_types''] then (False, d)
         else case select_tag d (tag_url tag) resourceType of
                [] \<Rightarrow> (False, d)
              | i # _ \<Rightarrow>
                  if \<not> prepare_ok d [''resource_tags''] then (False, d)
                  else
                    let row = \<lparr> rt_resource_id = resourceId, rt_tag_id = toInt i \<rparr>
                    in if \<not> accepts_resource_tag sch d row then (False, d)
                       else (True, d\<lparr>resource_tags := resource_tags d @ [row]\<rparr>))"

definition addTags :: "schema \<Rightarrow> db \<Rightarrow> KisResourceStorage \<Rightarrow> string \<Rightarrow> bool \<times> db" where
  "addTags sch d storage resourceType =
     (True, fold (\<lambda>it d'.
                    fold (\<lambda>resourceName d''.
                            snd (tagResource sch d'' storage resourceName (ti_tag it) resourceType))
                         (tag_defaultResources (ti_tag it))
                         (snd (addTag sch d' resourceType (ti_url it) (ti_name it) (ti_comment it))))
                 (sto_tags storage resourceType) d)"

section \<open>Storage registry\<close>

text \<open>
  \<open>addStorage\<close>. The result of preparing the SELECT is overwritten by that of executing
  it, which fails when the statement was not prepared. The timestamp is stored in
  milliseconds.
\<close>

definition addStorage :: "schema \<Rightarrow> db \<Rightarrow> KisResourceStorage \<Rightarrow> bool \<Rightarrow> bool \<times> db" where
  "addStorage sch d storage preinstalled =
     (if \<not> s_valid d then (False, d)
      else if \<not> prepare_ok d [''storages''] then (False, d)
      else if find (\<lambda>r. st_location r = sto_location storage) (storages d) \<noteq> None then (True, d)
      else
        let row = \<lparr> st_id = fresh_id (map st_id (storages d)),
                    st_origin_type_id = StorageType_int (sto_type storage),
                    st_location = sto_location storage,
                    st_timestamp = toMSecsSinceEpoch (sto_timestamp storage),
                    st_pre_installed = (if preinstalled then 1 else 0),
                    st_active = 1 \<rparr>
        in if \<not> accepts_storage sch d row then (False, d)
           else (True, d\<lparr>storages := storages d @ [row]\<rparr>))"

text \<open>
  \<open>deleteStorage\<close>. Its first statement is built from two adjacent string literals with
  no space between them,
  \<^verbatim>\<open>"DELETE FROM resources" "WHERE resource_id IN (SELECT versioned_resources.resource_id ..."\<close>,
  so the text handed to \<open>prepare\<close> begins \<^verbatim>\<open>DELETE FROM resourcesWHERE resource_id IN (\<close>,
  which is not a statement of SQL (the two other statements are built the same way, and
  the sub-selects have no FROM clause). \<open>prepare\<close> fails, whatever the database holds, and
  the function returns false at once.
\<close>

definition deleteStorage :: "db \<Rightarrow> KisResourceStorage \<Rightarrow> bool \<times> db" where
  "deleteStorage d storage = (False, d)"

section \<open>Synchronization\<close>

text \<open>
  \<open>synchronizeStorage\<close>; \<open>registry\<close> is the list of resource types of the loader
  registry. In the branch of the container storages the query is read also when it is
  positioned on no row: \<open>value\<close> is then an invalid \<open>QVariant\<close>, whose \<open>toInt\<close> is 0 and
  whose \<open>toBool\<close> is false. The stored timestamp is read with \<open>toInt\<close> and compared with
  the seconds of the storage's timestamp.
\<close>

definition persisted_storage :: "db \<Rightarrow> string \<Rightarrow> storage_row option" where
  "persisted_storage d loc =
     (if \<not> prepare_ok d [''storages''] then None
      else find (\<lambda>r. st_location r = loc) (storages d))"

definition synchronizeStorage ::
  "schema \<Rightarrow> string list \<Rightarrow> db \<Rightarrow> KisResourceStorage \<Rightarrow> bool \<times> db" where
  "synchronizeStorage sch registry d storage =
     (if \<not> s_valid d then (False, d)
      else if sto_type storage \<noteq> Folder then
        let q = persisted_storage d (sto_location storage);
            d1 = (case q of None \<Rightarrow> snd (addStorage sch d storage False) | Some _ \<Rightarrow> d);
            value0 = (case q of None \<Rightarrow> 0 | Some r \<Rightarrow> toInt (st_timestamp r));
            value1 = (case q of None \<Rightarrow> False | Some r \<Rightarrow> st_pre_installed r \<noteq> 0)
        in if toSecsSinceEpoch (sto_timestamp storage) > value0
           then (True, snd (addStorage sch (snd (deleteStorage d1 storage)) storage value1))
           else (True, d1)
      else
        (True, fold (\<lambda>resourceType d'.
                       fold (\<lambda>it d''. case it_resource it of
                                         None \<Rightarrow> d''
                                       | Some res \<Rightarrow> snd (addResource sch d'' storage
                                                            (it_lastModified it) (Some res) (it_type it)))
                            (sto_resources storage resourceType) d')
                    registry d))"

section \<open>Schema manager\<close>

text \<open>
  A \<open>QSqlError\<close> is held as its type; it is valid when an error is set.
\<close>

datatype QSqlError = NoError | ConnectionError | StatementError | TransactionError | UnknownError

definition isValid :: "QSqlError \<Rightarrow> bool" where
  "isValid e \<longleftrightarrow> e \<noteq> NoError"

text \<open>
  What \<open>initDb\<close> takes from outside the database: whether the database file can be
  opened, which of the SQL files compiled into the program can be opened, whether the
  engine executes the statement of such a file, what \<open>db.lastError()\<close> reports after a
  statement has failed, the resource types of the loader registry, the version of the
  application and the current date.
\<close>

record env =
  open_succeeds :: bool
  qrc_opens :: "string \<Rightarrow> bool"
  exec_succeeds :: "string \<Rightarrow> bool"
  db_lastError :: QSqlError
  registry_resourceTypes :: "string list"
  versionString :: string
  currentDateTimeUtc :: string

definition dbDriver :: string where
  "dbDriver = ''QSQLITE''"

definition defaultConnection :: string where
  "defaultConnection = ''qt_sql_default_connection''"

definition required_tables :: "string list" where
  "required_tables = [''version_information'', ''origin_types'', ''resource_types'', ''storages'',
     ''tags'', ''resources'', ''versioned_resources'', ''resource_tags'']"

text \<open>
  \<open>QSqlQuery::size()\<close> is the number of rows of the result, or -1 when the driver does not
  report the size of a result. The SQLite driver does not (\<open>QuerySize\<close> is not among its
  features).
\<close>

definition QSqlQuery_size :: "string \<Rightarrow> 'a list \<Rightarrow> int" where
  "QSqlQuery_size driver rows = (if driver = ''QSQLITE'' then - 1 else int (length rows))"

text \<open>
  The check of the version (the statement of \<open>get_version_information.sql\<close> reads the row
  of \<open>version_information\<close>): the value of the local \<open>schemaIsOutDated\<close> when the block
  has run. The string of an invalid \<open>QVariant\<close> is empty.
\<close>

definition schemaIsOutDated :: "string \<Rightarrow> db \<Rightarrow> bool" where
  "schemaIsOutDated driver d =
     (if QSqlQuery_size driver (version_information d) > 0
      then (case version_information d of [] \<Rightarrow> [] | r # _ \<Rightarrow> vi_database_version r) \<noteq> databaseVersion
      else False)"

text \<open>
  The steps of \<open>initDb\<close> after the check. Each gives \<open>Some e\<close> when \<open>initDb\<close> returns
  \<open>e\<close> there, and \<open>None\<close> when it goes on.
\<close>

fun create_tables :: "env \<Rightarrow> string list \<Rightarrow> db \<Rightarrow> QSqlError option \<times> db" where
  "create_tables e [] d = (None, d)"
| "create_tables e (t # ts) d =
     (if qrc_opens e ('':/create_'' @ t @ ''.sql'') then
        (if \<not> exec_succeeds e ('':/create_'' @ t @ ''.sql'') then (Some (db_lastError e), d)
         else create_tables e ts
                (d\<lparr>dbTables := (if t \<in> set (dbTables d) then dbTables d else dbTables d @ [t])\<rparr>))
      else (Some StatementError, d))"

fun create_indexes :: "env \<Rightarrow> string list \<Rightarrow> db \<Rightarrow> QSqlError option \<times> db" where
  "create_indexes e [] d = (None, d)"
| "create_indexes e (i # is) d =
     (if qrc_opens e ('':/create_index_'' @ i @ ''.sql'') then
        (if \<not> exec_succeeds e ('':/create_index_'' @ i @ ''.sql'') then (Some (db_lastError e), d)
         else create_indexes e is d)
      else (Some StatementError, d))"

fun fill_lookup :: "env \<Rightarrow> string \<Rightarrow> string list \<Rightarrow> lookup_row list \<Rightarrow> QSqlError option \<times> lookup_row list" where
  "fill_lookup e file [] rows = (None, rows)"
| "fill_lookup e file (n # ns) rows =
     (if \<not> exec_succeeds e file then (Some (db_lastError e), rows)
      else fill_lookup e file ns (rows @ [\<lparr> lk_id = fresh_id (map lk_id rows), lk_name = n \<rparr>]))"

text \<open>
  The statements that are to clear the two lookup tables, \<^verbatim>\<open>DELETE * FROM origin_types;\<close>
  and \<^verbatim>\<open>DELETE * FROM resource_types;\<close>, are not statements of SQL: they fail, which is
  logged, and the rows stay.
\<close>

definition fill_origin_types :: "env \<Rightarrow> db \<Rightarrow> QSqlError option \<times> db" where
  "fill_origin_types e d =
     (if qrc_opens e '':/fill_origin_types.sql'' then
        (case fill_lookup e '':/fill_origin_types.sql'' storageTypes (origin_types d) of
           (r, rows) \<Rightarrow> (r, d\<lparr>origin_types := rows\<rparr>))
      else (Some StatementError, d))"

definition fill_resource_types :: "env \<Rightarrow> db \<Rightarrow> QSqlError option \<times> db" where
  "fill_resource_types e d =
     (if qrc_opens e '':/fill_resource_types.sql'' then
        (case fill_lookup e '':/fill_resource_types.sql'' (registry_resourceTypes e) (resource_types d) of
           (r, rows) \<Rightarrow> (r, d\<lparr>resource_types := rows\<rparr>))
      else (Some StatementError, d))"

definition fill_version_information :: "env \<Rightarrow> db \<Rightarrow> QSqlError option \<times> db" where
  "fill_version_information e d =
     (if qrc_opens e '':/fill_version_information.sql'' then
        (if \<not> exec_succeeds e '':/fill_version_information.sql'' then (Some (db_lastError e), d)
         else (None, d\<lparr>version_information := version_information d @
                 [\<lparr> vi_database_version = databaseVersion,
                    vi_krita_version = versionString e,
                    vi_creation_date = currentDateTimeUtc e \<rparr>]\<rparr>))
      else (Some StatementError, d))"

definition and_then ::
  "QSqlError option \<times> db \<Rightarrow> (db \<Rightarrow> QSqlError option \<times> db) \<Rightarrow> QSqlError option \<times> db" where
  "and_then r f = (case r of (Some e, d) \<Rightarrow> (Some e, d) | (None, d) \<Rightarrow> f d)"

definition create_and_fill :: "env \<Rightarrow> db \<Rightarrow> QSqlError option \<times> db" where
  "create_and_fill e d =
     and_then (create_tables e required_tables d) (\<lambda>d.
     and_then (create_indexes e [''storages''] d) (\<lambda>d.
     and_then (fill_origin_types e d) (\<lambda>d.
     and_then (fill_resource_types e d) (\<lambda>d.
       fill_version_information e d))))"

definition initDb :: "env \<Rightarrow> string \<Rightarrow> db \<Rightarrow> QSqlError \<times> db" where
  "initDb e location d =
     (if connectionNames d \<noteq> [] then (NoError, d)
      else
        let d0 = d\<lparr>connectionNames := [defaultConnection]\<rparr>
        in if \<not> open_succeeds e then (ConnectionError, d0)
           else
             let d1 = d0\<lparr>isOpen := True\<rparr>;
                 allTablesPresent = list_all (\<lambda>t. t \<in> set (dbTables d1)) required_tables
             in if ''version_information'' \<in> set (dbTables d1) \<and>
                   \<not> qrc_opens e '':/get_version_information.sql''
                then (StatementError, d1)
                else if allTablesPresent \<and>
                        \<not> (''version_information'' \<in> set (dbTables d1) \<and> schemaIsOutDated dbDriver d1)
                then (NoError, d1)
                else case create_and_fill e d1 of
                       (Some err, d2) \<Rightarrow> (err, d2)
                     | (None, d2) \<Rightarrow> (NoError, d2))"

definition initialize :: "env \<Rightarrow> string \<Rightarrow> db \<Rightarrow> bool \<times> db" where
  "initialize e location d =
     (case initDb e location d of
        (err, d') \<Rightarrow> (\<not> isValid err, d'\<lparr>s_valid := \<not> isValid err\<rparr>))"

section \<open>Concrete databases\<close>

text \<open>
  An open, valid database with one registered resource type and one folder storage; that
  storage, and a brush in it, in two states of its content.
\<close>

definition example_db :: db where
  "example_db = \<lparr> s_valid = True, connectionNames = [defaultConnection], isOpen = True,
     dbTables = required_tables,
     version_information = [\<lparr> vi_database_version = ''0.0.1'', vi_krita_version = ''4.2'',
                               vi_creation_date = ''Mon Jan 1 2018'' \<rparr>],
     origin_types = [],
     resource_types = [\<lparr> lk_id = 1, lk_name = ''brushes'' \<rparr>],
     storages = [\<lparr> st_id = 1, st_origin_type_id = 2, st_location = ''/r'', st_timestamp = 0,
                   st_pre_installed = 0, st_active = 1 \<rparr>],
     tags = [], resources = [], versioned_resources = [], resource_tags = [] \<rparr>"

definition example_storage :: KisResourceStorage where
  "example_storage = \<lparr> sto_location = ''/r'', sto_type = Folder, sto_timestamp = 0,
     sto_resources = (\<lambda>_. []), sto_tags = (\<lambda>_. []) \<rparr>"

definition example_resource :: KoResource where
  "example_resource = \<lparr> res_valid = True, res_filename = ''a.gbr'', res_name = ''a'',
     res_md5 = ''C1'', res_image_png = '''' \<rparr>"

definition example_resource_changed :: KoResource where
  "example_resource_changed = example_resource\<lparr> res_md5 := ''C2'' \<rparr>"

definition first_row :: "int \<Rightarrow> int \<Rightarrow> string \<Rightarrow> versioned_row" where
  "first_row resourceId secs checksum =
     \<lparr> vr_resource_id = resourceId, vr_storage_id = Some 1, vr_version = Some 1,
       vr_location = ''a.gbr'', vr_timestamp = secs, vr_deleted = 0, vr_checksum = checksum \<rparr>"

text \<open>
  The database after \<open>a.gbr\<close>, last modified at second 100, has been added to
  \<open>example_db\<close> twice.
\<close>

definition indexed_db :: db where
  "indexed_db = example_db\<lparr>
     resources := [\<lparr> rs_id = 1, rs_resource_type_id = Some 1, rs_name = ''a'',
                     rs_filename = ''a.gbr'', rs_tooltip = ''a'', rs_thumbnail = '''',
                     rs_status = 1 \<rparr>],
     versioned_resources := [first_row (- 1) 100 ''C1'', first_row 1 100 ''C1''] \<rparr>"

text \<open>
  The same database when its storage is a bundle that was added, preinstalled, when its
  timestamp was 1 second (1000 milliseconds): the storage has one resource and two
  version rows. And the bundle as it is found later, at second 2000.
\<close>

definition bundle_db :: db where
  "bundle_db = indexed_db\<lparr>
     storages := [\<lparr> st_id = 1, st_origin_type_id = 3, st_location = ''/b.bundle'',
                    st_timestamp = 1000, st_pre_installed = 1, st_active = 1 \<rparr>] \<rparr>"

definition bundle_storage :: KisResourceStorage where
  "bundle_storage = \<lparr> sto_location = ''/b.bundle'', sto_type = Bundle, sto_timestamp = 2000000,
     sto_resources = (\<lambda>_. []), sto_tags = (\<lambda>_. []) \<rparr>"

text \<open>
  A resource whose only version was stored at second \<open>2 ^ 31\<close> (19 January 2038).
\<close>

definition late_db :: db where
  "late_db = indexed_db\<lparr> versioned_resources := [first_row 1 2147483648 ''C1''] \<rparr>"

text \<open>
  The process before \<open>initialize\<close> with no database file yet; the same with a database
  file that an application of schema version \<open>0.0.0\<close> has left; an environment in which
  everything works, and one in which \<open>fill_version_information.sql\<close> cannot be opened.
\<close>

definition new_db :: db where
  "new_db = \<lparr> s_valid = False, connectionNames = [], isOpen = False, dbTables = [],
     version_information = [], origin_types = [], resource_types = [], storages = [],
     tags = [], resources = [], versioned_resources = [], resource_tags = [] \<rparr>"

definition old_db :: db where
  "old_db = new_db\<lparr> dbTables := required_tables,
     version_information := [\<lparr> vi_database_version = ''0.0.0'', vi_krita_version = ''4.1'',
                                vi_creation_date = ''Mon Jan 1 2018'' \<rparr>] \<rparr>"

definition working_env :: env where
  "working_env = \<lparr> open_succeeds = True, qrc_opens = (\<lambda>_. True), exec_succeeds = (\<lambda>_. True),
     db_lastError = StatementError, registry_resourceTypes = [''brushes''],
     versionString = ''4.2'', currentDateTimeUtc = ''Mon Jan 1 2018'' \<rparr>"

definition failing_env :: env where
  "failing_env = working_env\<lparr> qrc_opens := (\<lambda>f. f \<noteq> '':/fill_version_information.sql'') \<rparr>"

text \<open>A folder whose two entries both fail to be added: a resource that is not valid.\<close>

definition broken_storage :: KisResourceStorage where
  "broken_storage = example_storage\<lparr> sto_resources := (\<lambda>_.
       [\<lparr> it_resource = Some (example_resource\<lparr> res_valid := False \<rparr>), it_lastModified = 100000,
          it_type = ''brushes'' \<rparr>,
        \<lparr> it_resource = Some (example_resource\<lparr> res_valid := False \<rparr>), it_lastModified = 100000,
          it_type = ''brushes'' \<rparr>]),
     sto_tags := (\<lambda>_. [\<lparr> ti_url = ''u'', ti_name = ''n'', ti_comment = ''c'',
                          ti_tag = \<lparr> tag_url = ''u'', tag_defaultResources = [''missing.gbr''] \<rparr> \<rparr>]) \<rparr>"

text \<open>
  What \<open>initialize\<close> leaves of \<open>new_db\<close> in \<open>failing_env\<close>: the tables are created and
  the lookup tables filled, and the flag is false.
\<close>

definition failed_db :: db where
  "failed_db = new_db\<lparr> connectionNames := [defaultConnection], isOpen := True,
     dbTables := required_tables,
     origin_types := [\<lparr> lk_id = 1, lk_name = ''UNKNOWN'' \<rparr>, \<lparr> lk_id = 2, lk_name = ''FOLDER'' \<rparr>,
                      \<lparr> lk_id = 3, lk_name = ''BUNDLE'' \<rparr>,
                      \<lparr> lk_id = 4, lk_name = ''ADOBE_BRUSH_LIBRARY'' \<rparr>,
                      \<lparr> lk_id = 5, lk_name = ''ADOBE_STYLE_LIBRARY'' \<rparr>],
     resource_types := [\<lparr> lk_id = 1, lk_name = ''brushes'' \<rparr>] \<rparr>"

section \<open>Facts about the values and the queries\<close>

lemma toInt_in_range: "- 2147483648 \<le> x \<Longrightarrow> x < 2147483648 \<Longrightarrow> toInt x = x"
  unfolding toInt_def by (simp add: sint_sbintrunc' signed_take_bit_int_eq_self)

lemma set_map_filter_eq: "set (List.map_filter f xs) = {y. \<exists>x \<in> set xs. f x = Some y}"
  by (induction xs) (auto split: option.splits)

lemma max_version_Some:
  assumes "max_version d rid = Some m"
  shows "m \<in> set (List.map_filter vr_version (rows_of d rid))"
    and "\<forall>v \<in> set (List.map_filter vr_version (rows_of d rid)). v \<le> m"
proof -
  obtain v vs where vs: "List.map_filter vr_version (rows_of d rid) = v # vs"
    and m: "m = fold max vs v"
    using assms by (auto simp: max_version_def split: list.splits)
  have "fold max vs v = Max (set (v # vs))"
    by (rule Max.set_eq_fold [symmetric])
  with m have mm: "m = Max (set (v # vs))" by simp
  show "m \<in> set (List.map_filter vr_version (rows_of d rid))"
    unfolding vs mm by (rule Max_in) auto
  show "\<forall>v \<in> set (List.map_filter vr_version (rows_of d rid)). v \<le> m"
    unfolding vs mm by (auto intro: Max_ge)
qed

lemma max_version_rows_maximal:
  assumes "r \<in> set (max_version_rows d rid)"
  shows "r \<in> set (versioned_resources d) \<and> vr_resource_id r = rid \<and>
     (\<exists>m. vr_version r = Some m \<and>
        (\<forall>r' \<in> set (versioned_resources d). vr_resource_id r' = rid \<longrightarrow>
           (\<forall>v. vr_version r' = Some v \<longrightarrow> v \<le> m)))"
proof -
  from assms obtain m where m: "max_version d rid = Some m"
    and r: "r \<in> set (rows_of d rid)" "vr_version r = Some m"
    by (cases "max_version d rid") (auto simp: max_version_rows_def)
  have "\<forall>r' \<in> set (versioned_resources d). vr_resource_id r' = rid \<longrightarrow>
          (\<forall>v. vr_version r' = Some v \<longrightarrow> v \<le> m)"
    using max_version_Some(2) [OF m] by (force simp: set_map_filter_eq rows_of_def)
  then show ?thesis using r by (auto simp: rows_of_def)
qed

lemma versioned_resources_update_neq:
  "d\<lparr>versioned_resources := versioned_resources d @ [row]\<rparr> \<noteq> d"
proof
  assume "d\<lparr>versioned_resources := versioned_resources d @ [row]\<rparr> = d"
  then have "versioned_resources (d\<lparr>versioned_resources := versioned_resources d @ [row]\<rparr>)
             = versioned_resources d" by simp
  then show False by simp
qed

lemma add_first_version_changes:
  "add_first_version sch d resourceId storage timestamp resource \<noteq> (True, d)"
  by (simp add: add_first_version_def Let_def versioned_resources_update_neq)

section \<open>Resource index: the claims\<close>

lemma prepare_ok_late: "prepare_ok late_db [''versioned_resources'']"
  by (simp add: prepare_ok_def late_db_def indexed_db_def example_db_def required_tables_def)

lemma max_version_rows_indexed: "max_version_rows indexed_db 1 = [first_row 1 100 ''C1'']"
  by (simp add: max_version_rows_def max_version_def rows_of_def indexed_db_def first_row_def)

lemma max_version_rows_late: "max_version_rows late_db 1 = [first_row 1 2147483648 ''C1'']"
  by (simp add: max_version_rows_def max_version_def rows_of_def late_db_def first_row_def)

text \<open>
  Where \<open>resourceNeedsUpdating\<close> does what is expected of it. A resource with no version
  row: the function takes the branch that logs the inconsistency, and returns false. A
  resource with one row of maximum version whose stored timestamp fits 32 bits: the
  function returns true exactly when the seconds of the candidate are strictly greater
  than the stored timestamp.
\<close>

lemma resourceNeedsUpdating_no_rows:
  assumes "prepare_ok d [''versioned_resources'']" and "rows_of d resourceId = []"
  shows "resourceNeedsUpdating_branch d resourceId timestamp = NoVersionFound"
    and "\<not> resourceNeedsUpdating d resourceId timestamp"
  using assms
  by (simp_all add: resourceNeedsUpdating_def resourceNeedsUpdating_branch_def
        max_version_rows_def max_version_def)

lemma resourceNeedsUpdating_in_32bit_range:
  assumes "prepare_ok d [''versioned_resources'']"
    and "max_version_rows d resourceId = [r]"
    and "- 2147483648 \<le> vr_timestamp r" and "vr_timestamp r < 2147483648"
  shows "resourceNeedsUpdating d resourceId timestamp \<longleftrightarrow>
           toSecsSinceEpoch timestamp > vr_timestamp r"
  using assms
  by (simp add: resourceNeedsUpdating_def resourceNeedsUpdating_branch_def toInt_in_range)

text \<open>
  The writing side keeps the whole 64-bit value: a version added for a file last modified
  at second \<open>2 ^ 31\<close> (19 January 2038) is stored with that timestamp.
\<close>

lemma add_first_version_stores_full_width:
  "add_first_version unconstrained example_db 1 example_storage 2147483648000 example_resource
     = (True, example_db\<lparr>versioned_resources := [first_row 1 2147483648 ''C1'']\<rparr>)"
  by (simp add: add_first_version_def prepare_ok_def required_tables_def example_db_def
        example_storage_def example_resource_def unconstrained_def storage_id_for_def
        toSecsSinceEpoch_def first_row_def Let_def)

text \<open>
  C9 (what the code does where the claim expects the two timestamps to be compared). The
  reading side, \<open>resourceTimeStamp.toInt()\<close>, keeps 32 bits of the stored value. The only
  version of resource 1 in \<open>late_db\<close> was stored at second \<open>2 ^ 31\<close>, which is read as
  \<open>- 2 ^ 31\<close>; the candidate is second 100, which is not newer than the stored
  timestamp, and \<open>resourceNeedsUpdating\<close> returns true.
\<close>

theorem resourceNeedsUpdating_narrows_stored_timestamp:
  "max_version_rows late_db 1 = [first_row 1 2147483648 ''C1''] \<and>
   vr_timestamp (first_row 1 2147483648 ''C1'') = 2147483648 \<and>
   toInt 2147483648 = - 2147483648 \<and>
   toSecsSinceEpoch 100000 = 100 \<and>
   \<not> (toSecsSinceEpoch 100000 > vr_timestamp (first_row 1 2147483648 ''C1'')) \<and>
   resourceNeedsUpdating late_db 1 100000"
  by (simp add: max_version_rows_late resourceNeedsUpdating_def resourceNeedsUpdating_branch_def
        prepare_ok_late first_row_def toInt_def toSecsSinceEpoch_def)

lemma prepare_ok_versioned_update [simp]:
  "prepare_ok (d\<lparr>versioned_resources := rows\<rparr>) ts = prepare_ok d ts"
  by (simp add: prepare_ok_def)

lemma storage_id_for_versioned_update [simp]:
  "storage_id_for (d\<lparr>versioned_resources := rows\<rparr>) loc = storage_id_for d loc"
  by (simp add: storage_id_for_def)

lemma example_tables:
  "prepare_ok example_db ts \<longleftrightarrow> list_all (\<lambda>t. t \<in> set required_tables) ts"
  "prepare_ok indexed_db ts \<longleftrightarrow> list_all (\<lambda>t. t \<in> set required_tables) ts"
  "prepare_ok bundle_db ts \<longleftrightarrow> list_all (\<lambda>t. t \<in> set required_tables) ts"
  by (simp_all add: prepare_ok_def example_db_def indexed_db_def bundle_db_def)

lemma resourceIdForResource_indexed:
  "resourceIdForResource indexed_db ''a.gbr'' ''brushes'' = 1"
  by (simp add: resourceIdForResource_def prepare_ok_def required_tables_def
        select_resource_id_def indexed_db_def example_db_def toInt_def)

lemma storage_id_for_indexed: "storage_id_for indexed_db ''/r'' = Some 1"
  by (simp add: storage_id_for_def indexed_db_def example_db_def)

text \<open>
  The database \<open>indexed_db\<close> is the one the code makes: it is what two calls of
  \<open>addResource\<close> with the same brush and the same timestamp leave of \<open>example_db\<close>. The
  first call files the version row under the resource id -1, the value that the local
  \<open>resourceId\<close> still holds after the resource row has been inserted.
\<close>

lemma addResource_example_first:
  "addResource unconstrained example_db example_storage 100000 (Some example_resource) ''brushes''
     = (True, example_db\<lparr>
          resources := [\<lparr> rs_id = 1, rs_resource_type_id = Some 1, rs_name = ''a'',
                          rs_filename = ''a.gbr'', rs_tooltip = ''a'', rs_thumbnail = '''',
                          rs_status = 1 \<rparr>],
          versioned_resources := [first_row (- 1) 100 ''C1''] \<rparr>)"
  by (simp add: addResource_def add_first_version_def resourceIdForResource_def
        select_resource_id_def prepare_ok_def required_tables_def example_db_def
        example_storage_def example_resource_def unconstrained_def fresh_id_def
        resource_type_id_for_def storage_id_for_def i18n_def toSecsSinceEpoch_def
        first_row_def Let_def)

lemma indexed_db_reached:
  "snd (addResource unconstrained
          (snd (addResource unconstrained example_db example_storage 100000
                  (Some example_resource) ''brushes''))
          example_storage 100000 (Some example_resource) ''brushes'') = indexed_db"
  unfolding addResource_example_first
  by (simp add: addResource_def add_first_version_def resourceIdForResource_def
        select_resource_id_def prepare_ok_def required_tables_def example_db_def
        example_storage_def example_resource_def unconstrained_def
        storage_id_for_def toSecsSinceEpoch_def toInt_def first_row_def Let_def
        resourceNeedsUpdating_def resourceNeedsUpdating_branch_def max_version_rows_def
        max_version_def rows_of_def indexed_db_def)

text \<open>
  C1 (what the code does where the claim expects nothing to happen). The resource is
  present and does not need updating: \<open>addResource\<close> goes on to its last statement and
  inserts a row with version 1 for the resource. Whatever the constraints of the table,
  the call is not a successful call that leaves the database as it was.
\<close>

theorem addResource_present_not_newer:
  assumes "s_valid d" and "res_valid res"
    and "resourceIdForResource d (res_filename res) resourceType = resourceId"
    and "resourceId > - 1"
    and "\<not> resourceNeedsUpdating d resourceId timestamp"
  shows "addResource sch d storage timestamp (Some res) resourceType
           = add_first_version sch d resourceId storage timestamp res \<and>
         addResource sch d storage timestamp (Some res) resourceType \<noteq> (True, d)"
proof -
  have "addResource sch d storage timestamp (Some res) resourceType
           = add_first_version sch d resourceId storage timestamp res"
    using assms by (simp add: addResource_def Let_def)
  then show ?thesis by (simp add: add_first_version_changes)
qed

theorem addResource_present_not_newer_witness:
  "s_valid indexed_db \<and> res_valid example_resource \<and>
   resourceIdForResource indexed_db (res_filename example_resource) ''brushes'' = 1 \<and>
   \<not> resourceNeedsUpdating indexed_db 1 100000 \<and>
   addResource unconstrained indexed_db example_storage 100000 (Some example_resource) ''brushes''
     = (True, indexed_db\<lparr>versioned_resources :=
                 [first_row (- 1) 100 ''C1'', first_row 1 100 ''C1'', first_row 1 100 ''C1'']\<rparr>)"
proof -
  have v: "s_valid indexed_db" by (simp add: indexed_db_def example_db_def)
  have r: "res_valid example_resource" by (simp add: example_resource_def)
  have i: "resourceIdForResource indexed_db (res_filename example_resource) ''brushes'' = 1"
    by (simp add: example_resource_def resourceIdForResource_indexed)
  have n: "\<not> resourceNeedsUpdating indexed_db 1 100000"
    by (simp add: resourceNeedsUpdating_def resourceNeedsUpdating_branch_def
          max_version_rows_indexed example_tables required_tables_def first_row_def toInt_def
          toSecsSinceEpoch_def)
  have "add_first_version unconstrained indexed_db 1 example_storage 100000 example_resource
          = (True, indexed_db\<lparr>versioned_resources :=
                 [first_row (- 1) 100 ''C1'', first_row 1 100 ''C1'', first_row 1 100 ''C1'']\<rparr>)"
    by (simp add: add_first_version_def example_tables required_tables_def unconstrained_def
          example_storage_def storage_id_for_indexed example_resource_def toSecsSinceEpoch_def
          first_row_def Let_def)
       (simp add: indexed_db_def first_row_def)
  with addResource_present_not_newer [OF v r i _ n, of unconstrained example_storage]
  show ?thesis using v r i n by simp
qed

text \<open>
  C2 (what the code does where the claim expects one new version). The resource is
  present and needs updating: \<open>addResourceVersion\<close> inserts the row with
  \<open>MAX(version) + 1\<close>, fails on its second statement, and \<open>addResource\<close> goes on to insert
  a row with version 1 as well. The versions of the resource are then those it had,
  followed by the next one and by 1.
\<close>

theorem addResource_present_newer:
  assumes "s_valid d" and "res_valid res"
    and "resourceIdForResource d (res_filename res) resourceType = resourceId"
    and "resourceId > - 1"
    and "resourceNeedsUpdating d resourceId timestamp"
    and "prepare_ok d [''versioned_resources'', ''storages'']"
    and "\<forall>d' row. accepts_version sch d' row"
  shows "map vr_version (rows_of (snd (addResource sch d storage timestamp (Some res) resourceType))
            resourceId)
         = map vr_version (rows_of d resourceId) @ [next_version d resourceId, Some 1]"
  using assms
  by (simp add: addResource_def addResourceVersion_def add_first_version_def Let_def rows_of_def)

theorem addResource_present_newer_witness:
  "s_valid indexed_db \<and> res_valid example_resource_changed \<and>
   resourceIdForResource indexed_db (res_filename example_resource_changed) ''brushes'' = 1 \<and>
   resourceNeedsUpdating indexed_db 1 200000 \<and>
   prepare_ok indexed_db [''versioned_resources'', ''storages''] \<and>
   map vr_version (rows_of (snd (addResource unconstrained indexed_db example_storage 200000
        (Some example_resource_changed) ''brushes'')) 1) = [Some 1, Some 2, Some 1]"
proof -
  have v: "s_valid indexed_db" by (simp add: indexed_db_def example_db_def)
  have r: "res_valid example_resource_changed"
    by (simp add: example_resource_changed_def example_resource_def)
  have i: "resourceIdForResource indexed_db (res_filename example_resource_changed) ''brushes'' = 1"
    by (simp add: example_resource_changed_def example_resource_def resourceIdForResource_indexed)
  have n: "resourceNeedsUpdating indexed_db 1 200000"
    by (simp add: resourceNeedsUpdating_def resourceNeedsUpdating_branch_def
          max_version_rows_indexed example_tables required_tables_def first_row_def toInt_def
          toSecsSinceEpoch_def)
  have p: "prepare_ok indexed_db [''versioned_resources'', ''storages'']"
    by (simp add: example_tables required_tables_def)
  have a: "\<forall>d' row. accepts_version unconstrained d' row"
    by (simp add: unconstrained_def)
  have o: "map vr_version (rows_of indexed_db 1) = [Some 1]"
    by (simp add: rows_of_def indexed_db_def first_row_def)
  have x: "next_version indexed_db 1 = Some 2"
    by (simp add: next_version_def max_version_def rows_of_def indexed_db_def first_row_def)
  show ?thesis
    using addResource_present_newer [OF v r i _ n p a, of example_storage] v r i n p o x
    by simp
qed

section \<open>Tag catalog: the claims\<close>

lemma prepare_ok_tags_update [simp]:
  "prepare_ok (d\<lparr>tags := rows\<rparr>) ts = prepare_ok d ts"
  by (simp add: prepare_ok_def)

lemma resource_type_id_for_Some:
  assumes "resource_type_id_for d rtype = Some i"
  shows "list_ex (\<lambda>rt. lk_name rt = rtype \<and> Some i = Some (lk_id rt)) (resource_types d)"
proof -
  from assms obtain rt where f: "find (\<lambda>r. lk_name r = rtype) (resource_types d) = Some rt"
    and i: "lk_id rt = i"
    by (auto simp: resource_type_id_for_def)
  from f have "rt \<in> set (resource_types d)" "lk_name rt = rtype"
    by (auto simp: find_Some_iff)
  with i show ?thesis by (auto simp: list_ex_iff)
qed

text \<open>
  C8 (as amended). On an open database with the two tables, for a resource type that is
  registered. When the url has a tag of that type, \<open>addTag\<close> returns true and changes
  nothing. When it has none and the table accepts the new row, the first call of
  \<open>addTag\<close> succeeds and leaves exactly one tag for the url and the type, and the second
  call with the same arguments succeeds and leaves the database as the first call left
  it.
\<close>

theorem addTag_idempotent_registered:
  assumes "prepare_ok d [''tags'', ''resource_types'']"
    and "resource_type_id_for d resourceType \<noteq> None"
  shows "(hasTag d url resourceType \<longrightarrow> addTag sch d resourceType url name comment = (True, d)) \<and>
         (\<not> hasTag d url resourceType \<and> accepts_tag sch d (new_tag d resourceType url name comment) \<longrightarrow>
            fst (addTag sch d resourceType url name comment) \<and>
            length (select_tag (snd (addTag sch d resourceType url name comment)) url resourceType) = 1 \<and>
            length (tags (snd (addTag sch d resourceType url name comment))) = length (tags d) + 1 \<and>
            addTag sch (snd (addTag sch d resourceType url name comment)) resourceType url name comment
              = (True, snd (addTag sch d resourceType url name comment)))"
proof (intro conjI impI)
  assume "hasTag d url resourceType"
  then show "addTag sch d resourceType url name comment = (True, d)"
    by (simp add: addTag_def)
next
  let ?row = "new_tag d resourceType url name comment"
  let ?d1 = "d\<lparr>tags := tags d @ [?row]\<rparr>"
  assume fresh: "\<not> hasTag d url resourceType \<and> accepts_tag sch d ?row"
  from assms(2) obtain i where i: "resource_type_id_for d resourceType = Some i" by auto
  have first: "addTag sch d resourceType url name comment = (True, ?d1)"
    using assms(1) fresh by (simp add: addTag_def Let_def)
  have none: "select_tag d url resourceType = []"
    using assms(1) fresh by (simp add: hasTag_def)
  have "select_tag ?d1 url resourceType = [tg_id ?row]"
    using none resource_type_id_for_Some [OF i]
    by (simp add: select_tag_def new_tag_def i)
  then have one: "length (select_tag ?d1 url resourceType) = 1"
    and has: "hasTag ?d1 url resourceType"
    using assms(1) by (simp_all add: hasTag_def)
  have second: "addTag sch ?d1 resourceType url name comment = (True, ?d1)"
    using has by (simp add: addTag_def)
  show "fst (addTag sch d resourceType url name comment)"
    by (simp add: first)
  show "length (select_tag (snd (addTag sch d resourceType url name comment)) url resourceType) = 1"
    by (simp add: first one)
  show "length (tags (snd (addTag sch d resourceType url name comment))) = length (tags d) + 1"
    by (simp add: first)
  show "addTag sch (snd (addTag sch d resourceType url name comment)) resourceType url name comment
          = (True, snd (addTag sch d resourceType url name comment))"
    by (simp add: first second)
qed

theorem addTag_idempotent_registered_witness:
  "prepare_ok example_db [''tags'', ''resource_types''] \<and>
   resource_type_id_for example_db ''brushes'' = Some 1 \<and>
   \<not> hasTag example_db ''u'' ''brushes'' \<and>
   length (tags (snd (addTag unconstrained
      (snd (addTag unconstrained example_db ''brushes'' ''u'' ''n'' ''c''))
      ''brushes'' ''u'' ''n'' ''c''))) = 1"
proof -
  have p: "prepare_ok example_db [''tags'', ''resource_types'']"
    by (simp add: prepare_ok_def example_db_def required_tables_def)
  have t: "resource_type_id_for example_db ''brushes'' = Some 1"
    by (simp add: resource_type_id_for_def example_db_def)
  then have t': "resource_type_id_for example_db ''brushes'' \<noteq> None" by simp
  have h: "\<not> hasTag example_db ''u'' ''brushes''"
    by (simp add: hasTag_def select_tag_def example_db_def)
  have a: "accepts_tag unconstrained example_db (new_tag example_db ''brushes'' ''u'' ''n'' ''c'')"
    by (simp add: unconstrained_def)
  have e: "tags example_db = []" by (simp add: example_db_def)
  show ?thesis
    using addTag_idempotent_registered [OF p t', of "''u''" unconstrained "''n''" "''c''"] p t h a e
    by simp
qed

text \<open>
  C8 as it is written fails for a resource type that is not registered: the row is
  stored with no resource type, the lookup by url and type does not find it, and the
  second call inserts a second row.
\<close>

theorem addTag_unregistered_counterexample:
  "length (tags (snd (addTag unconstrained example_db ''patterns'' ''u'' ''n'' ''c''))) = 1 \<and>
   length (tags (snd (addTag unconstrained
      (snd (addTag unconstrained example_db ''patterns'' ''u'' ''n'' ''c''))
      ''patterns'' ''u'' ''n'' ''c''))) = 2"
  by (simp add: addTag_def new_tag_def hasTag_def select_tag_def prepare_ok_def
        required_tables_def example_db_def unconstrained_def resource_type_id_for_def Let_def)

section \<open>Batches: the claims\<close>

text \<open>
  C10. \<open>addResources\<close> and \<open>addTags\<close> return true on every database, and so does
  \<open>synchronizeStorage\<close> for a folder once the database is valid, whatever the calls made
  for the items return.
\<close>

theorem batches_return_true:
  "fst (addResources sch d storage resourceType) \<and>
   fst (addTags sch d storage resourceType) \<and>
   (s_valid d \<and> sto_type storage = Folder \<longrightarrow> fst (synchronizeStorage sch registry d storage))"
  by (simp add: addResources_def addTags_def synchronizeStorage_def)

text \<open>
  A batch in which every call fails: the two resources of \<open>broken_storage\<close> are not
  valid, and the resource that its tag names is not in the database. Nothing is added
  but the tag, and the three functions return true.
\<close>

lemma broken_item_fails:
  "\<not> fst (addResource sch d broken_storage 100000
            (Some (example_resource\<lparr> res_valid := False \<rparr>)) ''brushes'')"
  by (simp add: addResource_def)

theorem batches_return_true_witness:
  "s_valid example_db \<and> sto_type broken_storage = Folder \<and>
   addResources unconstrained example_db broken_storage ''brushes'' = (True, example_db) \<and>
   fst (addTags unconstrained example_db broken_storage ''brushes'') \<and>
   resource_tags (snd (addTags unconstrained example_db broken_storage ''brushes'')) = [] \<and>
   synchronizeStorage unconstrained [''brushes''] example_db broken_storage = (True, example_db)"
proof -
  have v: "s_valid example_db" by (simp add: example_db_def)
  have f: "sto_type broken_storage = Folder"
    by (simp add: broken_storage_def example_storage_def)
  have r: "addResources unconstrained example_db broken_storage ''brushes'' = (True, example_db)"
    by (simp add: addResources_def addResource_def broken_storage_def example_storage_def
          example_resource_def v)
  have s: "snd (synchronizeStorage unconstrained [''brushes''] example_db broken_storage) = example_db"
    by (simp add: synchronizeStorage_def addResource_def broken_storage_def example_storage_def
          example_resource_def v)
  have t: "resource_tags (snd (addTags unconstrained example_db broken_storage ''brushes'')) = []"
    by (simp add: addTags_def addTag_def new_tag_def tagResource_def hasTag_def select_tag_def
          resourceIdForResource_def select_resource_id_def prepare_ok_def required_tables_def
          broken_storage_def example_storage_def example_db_def unconstrained_def
          resource_type_id_for_def fresh_id_def Let_def)
  show ?thesis
    using batches_return_true [of unconstrained example_db broken_storage "''brushes''" "[''brushes'']"]
      v f r s t
    by (simp add: prod_eq_iff)
qed

section \<open>Storages and synchronization: the claims\<close>

text \<open>
  C4 (what the code does where the claim expects the rows to go). \<open>deleteStorage\<close>
  fails on its first statement: on the bundle of \<open>bundle_db\<close>, which has one resource
  and two version rows, it returns false, and the resource row, the version rows and the
  storage row are all still there.
\<close>

theorem deleteStorage_removes_nothing:
  "deleteStorage bundle_db bundle_storage = (False, bundle_db) \<and>
   storage_id_for bundle_db (sto_location bundle_storage) = Some 1 \<and>
   map vr_storage_id (versioned_resources bundle_db) = [Some 1, Some 1] \<and>
   length (storages (snd (deleteStorage bundle_db bundle_storage))) = 1 \<and>
   length (resources (snd (deleteStorage bundle_db bundle_storage))) = 1 \<and>
   length (versioned_resources (snd (deleteStorage bundle_db bundle_storage))) = 2"
  by (simp add: deleteStorage_def storage_id_for_def bundle_db_def bundle_storage_def
        indexed_db_def first_row_def)

text \<open>
  C3 (what the code does where the claim expects the storage to be recreated). For a
  container storage that has a row in \<open>storages\<close>, \<open>synchronizeStorage\<close> returns true and
  leaves the database as it was, whatever the two timestamps are: when the storage is
  found newer, \<open>deleteStorage\<close> fails, and \<open>addStorage\<close> finds the row and does
  nothing.
\<close>

theorem synchronizeStorage_persisted_container:
  assumes "s_valid d" and "sto_type storage \<noteq> Folder"
    and "persisted_storage d (sto_location storage) = Some r"
  shows "synchronizeStorage sch registry d storage = (True, d)"
proof -
  from assms(3) have p: "prepare_ok d [''storages'']"
    and f: "find (\<lambda>r. st_location r = sto_location storage) (storages d) = Some r"
    by (auto simp: persisted_storage_def split: if_splits)
  have "addStorage sch d storage b = (True, d)" for b
    using assms(1) p f by (simp add: addStorage_def)
  then show ?thesis
    using assms by (simp add: synchronizeStorage_def deleteStorage_def Let_def)
qed

theorem synchronizeStorage_persisted_container_witness:
  "s_valid bundle_db \<and> sto_type bundle_storage \<noteq> Folder \<and>
   map_option st_timestamp (persisted_storage bundle_db (sto_location bundle_storage)) = Some 1000 \<and>
   toSecsSinceEpoch (sto_timestamp bundle_storage) = 2000 \<and>
   toMSecsSinceEpoch (sto_timestamp bundle_storage) = 2000000 \<and>
   synchronizeStorage unconstrained [''brushes''] bundle_db bundle_storage = (True, bundle_db) \<and>
   length (versioned_resources bundle_db) = 2"
proof -
  have v: "s_valid bundle_db" by (simp add: bundle_db_def indexed_db_def example_db_def)
  have t: "sto_type bundle_storage \<noteq> Folder" by (simp add: bundle_storage_def)
  have p: "persisted_storage bundle_db (sto_location bundle_storage)
             = Some \<lparr> st_id = 1, st_origin_type_id = 3, st_location = ''/b.bundle'',
                      st_timestamp = 1000, st_pre_installed = 1, st_active = 1 \<rparr>"
    by (simp add: persisted_storage_def prepare_ok_def required_tables_def bundle_db_def
          indexed_db_def example_db_def bundle_storage_def)
  have s: "toSecsSinceEpoch (sto_timestamp bundle_storage) = 2000"
    "toMSecsSinceEpoch (sto_timestamp bundle_storage) = 2000000"
    by (simp_all add: toSecsSinceEpoch_def toMSecsSinceEpoch_def bundle_storage_def)
  have l: "length (versioned_resources bundle_db) = 2" by (simp add: bundle_db_def indexed_db_def)
  show ?thesis
    using synchronizeStorage_persisted_container [OF v t p, of unconstrained "[''brushes'']"]
      v t p s l
    by simp
qed

section \<open>Schema manager: the claims\<close>

lemma create_tables_connectionNames:
  "connectionNames (snd (create_tables e ts d)) = connectionNames d"
  by (induction ts arbitrary: d) simp_all

lemma create_indexes_connectionNames:
  "connectionNames (snd (create_indexes e is d)) = connectionNames d"
  by (induction "is") simp_all

lemma fill_connectionNames:
  "connectionNames (snd (fill_origin_types e d)) = connectionNames d"
  "connectionNames (snd (fill_resource_types e d)) = connectionNames d"
  "connectionNames (snd (fill_version_information e d)) = connectionNames d"
  by (simp_all add: fill_origin_types_def fill_resource_types_def fill_version_information_def
        split: prod.splits)

lemma and_then_connectionNames:
  assumes "\<And>d. connectionNames (snd (f d)) = connectionNames d"
  shows "connectionNames (snd (and_then r f)) = connectionNames (snd r)"
  using assms by (cases r) (auto simp: and_then_def split: option.splits)

lemma create_and_fill_connectionNames:
  "connectionNames (snd (create_and_fill e d)) = connectionNames d"
  unfolding create_and_fill_def
  by (simp add: and_then_connectionNames create_tables_connectionNames
        create_indexes_connectionNames fill_connectionNames)

lemma snd_finish:
  "snd (case x of (Some err, d2) \<Rightarrow> (err, d2) | (None, d2) \<Rightarrow> (NoError, d2)) = snd x"
  by (cases x) (auto split: option.splits)

lemma initDb_connected: "connectionNames (snd (initDb e location d)) \<noteq> []"
  by (simp add: initDb_def Let_def snd_finish create_and_fill_connectionNames)

text \<open>
  C7. When a call of \<open>initialize\<close> has reported success, a second call, for any location
  and whatever the environment has become, reports success and leaves the flag, the
  connection and the whole database as they were.
\<close>

theorem initialize_twice:
  assumes "initialize e location d = (True, d')"
  shows "initialize e' location' d' = (True, d')"
proof -
  obtain err d1 where i: "initDb e location d = (err, d1)" by (cases "initDb e location d")
  with assms have d': "d' = d1\<lparr>s_valid := True\<rparr>"
    by (auto simp: initialize_def)
  have "connectionNames d1 \<noteq> []"
    using initDb_connected [of e location d] i by simp
  then have "connectionNames d' \<noteq> []" by (simp add: d')
  then have "initDb e' location' d' = (NoError, d')" by (simp add: initDb_def)
  then show ?thesis by (simp add: initialize_def isValid_def d')
qed

lemma initialize_new_db:
  "initialize working_env ''/loc'' new_db
     = (True, failed_db\<lparr> s_valid := True,
          version_information := [\<lparr> vi_database_version = ''0.0.1'', vi_krita_version = ''4.2'',
                                     vi_creation_date = ''Mon Jan 1 2018'' \<rparr>] \<rparr>)"
  by (simp add: initialize_def initDb_def create_and_fill_def and_then_def
        fill_origin_types_def fill_resource_types_def fill_version_information_def
        required_tables_def storageTypes_def working_env_def new_db_def failed_db_def
        isValid_def fresh_id_def databaseVersion_def Let_def)

theorem initialize_twice_witness:
  "fst (initialize working_env ''/loc'' new_db) \<and>
   version_information (snd (initialize working_env ''/loc'' new_db)) \<noteq> [] \<and>
   initialize failing_env ''/elsewhere'' (snd (initialize working_env ''/loc'' new_db))
     = (True, snd (initialize working_env ''/loc'' new_db))"
  using initialize_twice [of working_env "''/loc''" new_db _ failing_env "''/elsewhere''"]
  by (simp add: initialize_new_db)

text \<open>
  C6 (what the code does where the claim expects the mismatch to be flagged). The check
  of the stored version runs only \<open>if (q.size() > 0)\<close>, and with the driver that the code
  selects the size of a result is -1. So when all the tables are there, \<open>initDb\<close> takes
  the return of ``All tables are present and up to date'' whatever the stored schema
  version is, changes nothing in the database, and \<open>initialize\<close> reports success.
\<close>

theorem initDb_ignores_stored_version:
  assumes "connectionNames d = []" and "open_succeeds e"
    and "qrc_opens e '':/get_version_information.sql''"
    and "list_all (\<lambda>t. t \<in> set (dbTables d)) required_tables"
  shows "\<not> schemaIsOutDated dbDriver (d\<lparr>connectionNames := [defaultConnection], isOpen := True\<rparr>) \<and>
         initDb e location d = (NoError, d\<lparr>connectionNames := [defaultConnection], isOpen := True\<rparr>) \<and>
         initialize e location d
           = (True, d\<lparr>connectionNames := [defaultConnection], isOpen := True, s_valid := True\<rparr>)"
proof -
  have s: "\<not> schemaIsOutDated dbDriver d'" for d'
    by (simp add: schemaIsOutDated_def QSqlQuery_size_def dbDriver_def)
  have i: "initDb e location d = (NoError, d\<lparr>connectionNames := [defaultConnection], isOpen := True\<rparr>)"
    using assms s by (simp add: initDb_def Let_def)
  show ?thesis using s i by (simp add: initialize_def isValid_def)
qed

theorem initDb_ignores_stored_version_witness:
  "map vi_database_version (version_information old_db) = [''0.0.0''] \<and>
   ''0.0.0'' \<noteq> databaseVersion \<and>
   initialize working_env ''/loc'' old_db
     = (True, old_db\<lparr>connectionNames := [defaultConnection], isOpen := True, s_valid := True\<rparr>)"
proof -
  have c: "connectionNames old_db = []" by (simp add: old_db_def new_db_def)
  have o: "open_succeeds working_env" by (simp add: working_env_def)
  have q: "qrc_opens working_env '':/get_version_information.sql''" by (simp add: working_env_def)
  have t: "list_all (\<lambda>t. t \<in> set (dbTables old_db)) required_tables"
    by (simp add: old_db_def required_tables_def)
  have v: "map vi_database_version (version_information old_db) = [''0.0.0'']"
    by (simp add: old_db_def)
  show ?thesis
    using initDb_ignores_stored_version [OF c o q t, of "''/loc''"] v
    by (simp add: databaseVersion_def)
qed

text \<open>
  With a driver that reports the size of a result, the same check finds the same
  database outdated.
\<close>

lemma schemaIsOutDated_reporting_driver: "schemaIsOutDated ''QPSQL'' old_db"
  by (simp add: schemaIsOutDated_def QSqlQuery_size_def old_db_def databaseVersion_def)

text \<open>
  The flag is what \<open>initialize\<close> returns, so it is false after a failed
  initialization; and \<open>addResource\<close>, \<open>addStorage\<close> and \<open>synchronizeStorage\<close> test it
  first.
\<close>

lemma initialize_sets_flag: "s_valid (snd (initialize e location d)) = fst (initialize e location d)"
  by (simp add: initialize_def split: prod.splits)

lemma guarded_operations:
  assumes "\<not> s_valid d"
  shows "addResource sch d storage timestamp resource resourceType = (False, d)"
    and "addStorage sch d storage preinstalled = (False, d)"
    and "synchronizeStorage sch registry d storage = (False, d)"
  using assms by (simp_all add: addResource_def addStorage_def synchronizeStorage_def)

text \<open>
  C5 (what the code does where the claim expects every operation to refuse). \<open>addTag\<close>,
  \<open>tagResource\<close> and \<open>deleteStorage\<close> do not test the flag. An initialization that fails
  at its last step, because \<open>fill_version_information.sql\<close> cannot be opened, leaves the
  flag false and the database open with its tables; \<open>addTag\<close> then returns true whatever
  the constraints of the table, and inserts the tag when the table accepts it.
\<close>

theorem addTag_after_failed_initialize:
  "initialize failing_env ''/loc'' new_db = (False, failed_db) \<and>
   \<not> s_valid failed_db \<and>
   tags failed_db = [] \<and>
   fst (addTag sch failed_db ''brushes'' ''u'' ''n'' ''c'') \<and>
   addTag unconstrained failed_db ''brushes'' ''u'' ''n'' ''c''
     = (True, failed_db\<lparr>tags := [\<lparr> tg_id = 1, tg_url = ''u'', tg_name = ''n'', tg_comment = ''c'',
                                   tg_resource_type_id = Some 1, tg_active = 1 \<rparr>]\<rparr>)"
proof -
  have i: "initialize failing_env ''/loc'' new_db = (False, failed_db)"
    by (simp add: initialize_def initDb_def create_and_fill_def and_then_def
        fill_origin_types_def fill_resource_types_def fill_version_information_def
        required_tables_def storageTypes_def failing_env_def working_env_def new_db_def
        failed_db_def isValid_def fresh_id_def Let_def)
  have h: "\<not> hasTag failed_db ''u'' ''brushes''"
    by (simp add: hasTag_def select_tag_def failed_db_def new_db_def)
  have p: "prepare_ok failed_db [''tags'', ''resource_types'']"
    by (simp add: prepare_ok_def required_tables_def failed_db_def new_db_def)
  have b: "fst (addTag sch failed_db ''brushes'' ''u'' ''n'' ''c'')"
    using h p by (simp add: addTag_def Let_def)
  have a: "addTag unconstrained failed_db ''brushes'' ''u'' ''n'' ''c''
     = (True, failed_db\<lparr>tags := [\<lparr> tg_id = 1, tg_url = ''u'', tg_name = ''n'', tg_comment = ''c'',
                                   tg_resource_type_id = Some 1, tg_active = 1 \<rparr>]\<rparr>)"
    using h p
    by (simp add: addTag_def new_tag_def unconstrained_def Let_def)
       (simp add: failed_db_def new_db_def resource_type_id_for_def fresh_id_def)
  show ?thesis using i a b by (simp add: failed_db_def new_db_def)
qed

end
